theory Spec2Isabelle
  imports Main "HOL-Library.Sublist"
begin

section \<open>Strings and numbers of the host language\<close>

text \<open>
  A TypeScript string is modelled as a HOL \<open>string\<close>; one \<open>char\<close> stands for one
  UTF-16 code unit below 256, so \<open>length\<close> and \<open>take\<close> count what \<open>substring\<close>
  counts. Of the characters that \<open>String.prototype.trim\<close> removes (WhiteSpace and
  LineTerminator of ECMAScript), the ones in that range are TAB, LF, VT, FF, CR, SPACE
  and NO-BREAK SPACE.
\<close>

definition is_space :: "char \<Rightarrow> bool" where
  "is_space c \<longleftrightarrow>
     c \<in> set [CHR 0x09, CHR 0x0A, CHR 0x0B, CHR 0x0C, CHR 0x0D, CHR 0x20, CHR 0xA0]"

definition trim :: "string \<Rightarrow> string" where
  "trim s = rev (dropWhile is_space (rev (dropWhile is_space s)))"

text \<open>A string is truthy exactly when it is not empty (\<open>!s\<close>, \<open>s || d\<close>, \<open>if (s)\<close>).\<close>

definition truthy :: "string \<Rightarrow> bool" where
  "truthy s \<longleftrightarrow> s \<noteq> []"

definition or_else :: "string \<Rightarrow> string \<Rightarrow> string" where
  "or_else s d = (if truthy s then s else d)"

text \<open>\<open>s.substring(i, j)\<close> on indices that are natural numbers: the smaller index is the
  start, and both are clamped to the length.\<close>

definition substring :: "string \<Rightarrow> nat \<Rightarrow> nat \<Rightarrow> string" where
  "substring s i j = (let a = min i j; b = max i j in take (b - a) (drop a s))"

text \<open>\<open>Number.prototype.toString\<close> on a non-negative integer (below \<open>10\<^sup>2\<^sup>1\<close>, where
  the decimal digits are printed in full): \<open>Date.now()\<close> and an HTTP status are such.\<close>

definition digit :: "nat \<Rightarrow> char" where
  "digit d = ''0123456789'' ! d"

function toString :: "nat \<Rightarrow> string" where
  "toString n = (if n < 10 then [digit n] else toString (n div 10) @ [digit (n mod 10)])"
  by pat_completeness auto
termination
  by (relation "measure id") auto

declare toString.simps [simp del]

text \<open>Reading decimal digits back, used only to show that \<open>toString\<close> is injective.\<close>

definition digit_value :: "char \<Rightarrow> nat" where
  "digit_value c = of_char c - 48"

definition read_decimal :: "string \<Rightarrow> nat" where
  "read_decimal s = foldl (\<lambda>a c. 10 * a + digit_value c) 0 s"

section \<open>Data model (types.ts)\<close>

record UserProfile =
  id_user :: string
  name :: string
  email :: string
  avatar_url :: "string option"

datatype role = User | Assistant

record Message =
  id_msg :: string
  role :: role
  content :: string
  created_at :: string
  disableAnimation :: "bool option"

record Conversation =
  id_conv :: string
  title :: string
  updated_at :: string

section \<open>Application state (the \<open>useState\<close> cells of \<open>App\<close>)\<close>

record app_state =
  user :: "UserProfile option"
  isLoginLoading :: bool
  conversations :: "Conversation list"
  activeConversationId :: "string option"
  messages :: "Message list"
  inputText :: string
  isSending :: bool
  isSidebarOpen :: bool
  isDarkMode :: bool
  isSettingsOpen :: bool
  apiKey :: string
  versionId :: string

definition initial_state :: app_state where
  "initial_state =
     \<lparr>user = None, isLoginLoading = False, conversations = [],
      activeConversationId = None, messages = [], inputText = [], isSending = False,
      isSidebarOpen = False, isDarkMode = False, isSettingsOpen = False,
      apiKey = [], versionId = ''production''\<rparr>"

text \<open>\<open>!activeConversationId\<close>: the id is \<open>null\<close> or the empty string.\<close>

definition no_conversation :: "string option \<Rightarrow> bool" where
  "no_conversation a = (case a of None \<Rightarrow> True | Some c \<Rightarrow> \<not> truthy c)"

section \<open>The network, as the handler sees it\<close>

text \<open>
  A promise settles: it resolves with a value, or rejects with an error of which the
  handler reads only \<open>e.message\<close> (the empty string when there is none).
\<close>

datatype 'a settled = Resolved 'a | Rejected string

text \<open>
  A trace of the response: its \<open>type\<close> and, when the trace has a \<open>payload\<close> object,
  the text that \<open>trace.payload.message\<close> contributes to a string concatenation. Without
  a payload object, reading \<open>.message\<close> throws a TypeError.
\<close>

datatype trace = Trace (trace_type: string) (payload_message: "string option")

text \<open>What \<open>response.json()\<close> resolves with: an array of traces, or a value that has
  no \<open>forEach\<close> method.\<close>

datatype body = Traces "trace list" | NotArray

record response =
  ok :: bool
  status :: nat
  body_text :: "string settled"
  body_json :: "body settled"

text \<open>The request of the \<open>fetch\<close> call: \<open>req_user\<close> is \<open>vfUserId\<close>, the session key
  that the URL \<open>/state/user/{vfUserId}/interact\<close> carries.\<close>

record request =
  req_user :: string
  req_authorization :: string
  req_versionID :: string
  req_payload :: string

text \<open>The first \<open>await\<close> of the handler: the \<open>fetch\<close>, or the timer of mock mode
  with its delay in milliseconds.\<close>

datatype await = Fetch request | Timeout nat

text \<open>Messages of the TypeErrors that the engine raises, in V8's wording for an
  \<open>undefined\<close> payload and for an object without \<open>forEach\<close>; the handler only
  copies them into the error text.\<close>

definition not_a_function :: string where
  "not_a_function = ''traces.forEach is not a function''"

definition no_payload :: string where
  "no_payload = ''Cannot read properties of undefined (reading 'message')''"

section \<open>handleSendMessage\<close>

text \<open>
  The clock readings of the synchronous part: \<open>Date.now()\<close> for the id of the user
  message, \<open>new Date().toISOString()\<close> for its timestamp, \<open>Date.now()\<close> for the
  conversation id minted when none is active.
\<close>

record clock_start =
  now_user :: nat
  iso_user :: string
  now_conv :: nat

text \<open>The clock readings after the \<open>await\<close>: \<open>Date.now()\<close> and
  \<open>new Date().toISOString()\<close> for the assistant message, \<open>new Date().toISOString()\<close>
  for the conversation summary.\<close>

record clock_finish =
  now_reply :: nat
  iso_reply :: string
  iso_conv :: string

text \<open>
  What the suspended handler holds while it awaits: the values of its closure
  (\<open>userMsg\<close>, the \<open>activeConversationId\<close> it was called with,
  \<open>currentConversationId\<close>) and the promise it awaits.
\<close>

record pending =
  userMsg :: Message
  seen_activeConversationId :: "string option"
  currentConversationId :: string
  awaiting :: await

text \<open>
  The synchronous part, up to the first \<open>await\<close>: the guard, the optimistic update,
  the conversation id, and the call that is issued. \<open>None\<close> is the early \<open>return\<close>.
\<close>

definition handleSendMessage_start ::
  "clock_start \<Rightarrow> app_state \<Rightarrow> (app_state \<times> pending) option" where
  "handleSendMessage_start clk s =
     (if \<not> truthy (trim (inputText s)) \<or> isSending s then None
      else
        let um = \<lparr>id_msg = toString (now_user clk), role = User, content = inputText s,
                  created_at = iso_user clk, disableAnimation = None\<rparr>;
            s1 = s\<lparr>messages := messages s @ [um], inputText := [], isSending := True\<rparr>;
            cid = (case activeConversationId s of
                     None \<Rightarrow> ''conv-'' @ toString (now_conv clk)
                   | Some a \<Rightarrow> if truthy a then a else ''conv-'' @ toString (now_conv clk));
            vfUserId = ''user-'' @ cid;
            aw = (if truthy (apiKey s)
                  then Fetch \<lparr>req_user = vfUserId,
                              req_authorization = trim (apiKey s),
                              req_versionID = or_else (trim (versionId s)) ''production'',
                              req_payload = content um\<rparr>
                  else Timeout 2000)
        in Some (s1, \<lparr>userMsg = um,
                       seen_activeConversationId = activeConversationId s,
                       currentConversationId = cid,
                       awaiting = aw\<rparr>))"

text \<open>The \<open>forEach\<close> over the traces, with \<open>assistantContent\<close> as accumulator;
  \<open>Inl\<close> is the message of the exception thrown.\<close>

fun parse_traces :: "trace list \<Rightarrow> string \<Rightarrow> string + string" where
  "parse_traces [] acc = Inr acc"
| "parse_traces (t # ts) acc =
     (if trace_type t = ''text'' \<or> trace_type t = ''speak''
      then (case payload_message t of
              None \<Rightarrow> Inl no_payload
            | Some m \<Rightarrow> parse_traces ts (acc @ m @ ''\<newline>''))
      else parse_traces ts acc)"

definition fallback_notice :: string where
  "fallback_notice =
     ''I received a response, but it contained no text. (Check console for traces)''"

definition mock_reply :: "string \<Rightarrow> string" where
  \<open>mock_reply c =
     ''[MOCK MODE] You asked: "'' @ c @
     ''". \<newline>\<newline>To test your real agent, click the Settings gear in the sidebar and enter your Voiceflow API Key.''\<close>

definition api_error :: "nat \<Rightarrow> string \<Rightarrow> string" where
  "api_error st errorText = ''VF API Error ('' @ toString st @ ''): '' @ errorText"

definition error_reply :: "string \<Rightarrow> string" where
  "error_reply e_message =
     ''Error connecting to Voiceflow: '' @ or_else e_message ''Unknown error'' @
     ''. \<newline>\<newline>Please check your API Key in Settings.''"

text \<open>
  The body of the \<open>try\<close> block from the settled promise to \<open>assistantContent\<close>:
  \<open>Inr\<close> is the content, \<open>Inl\<close> the message of the exception that reaches
  \<open>catch\<close>. In mock mode the timer resolves and the network is not consulted.
\<close>

definition try_body :: "pending \<Rightarrow> response settled \<Rightarrow> string + string" where
  "try_body p net =
     (case awaiting p of
        Timeout d \<Rightarrow> Inr (mock_reply (content (userMsg p)))
      | Fetch rq \<Rightarrow>
          (case net of
             Rejected m \<Rightarrow> Inl m
           | Resolved r \<Rightarrow>
               if \<not> ok r then
                 (case body_text r of
                    Rejected m \<Rightarrow> Inl m
                  | Resolved errorText \<Rightarrow> Inl (api_error (status r) errorText))
               else
                 (case body_json r of
                    Rejected m \<Rightarrow> Inl m
                  | Resolved NotArray \<Rightarrow> Inl not_a_function
                  | Resolved (Traces traces) \<Rightarrow>
                      (case parse_traces traces [] of
                         Inl m \<Rightarrow> Inl m
                       | Inr assistantContent \<Rightarrow>
                           Inr (if \<not> truthy assistantContent then fallback_notice
                                else assistantContent)))))"

text \<open>
  The rest of the handler, run when the awaited promise has settled, on the state of
  that moment: the state updates are functional (\<open>prev => ...\<close>), the test
  \<open>!activeConversationId\<close> reads the closure. \<open>finally\<close> clears the busy flag.
\<close>

definition handleSendMessage_finish ::
  "pending \<Rightarrow> response settled \<Rightarrow> clock_finish \<Rightarrow> app_state \<Rightarrow> app_state" where
  "handleSendMessage_finish p net clk s =
     (let s' =
        (case try_body p net of
           Inr assistantContent \<Rightarrow>
             (let am = \<lparr>id_msg = toString (now_reply clk + 1), role = Assistant,
                        content = trim assistantContent, created_at = iso_reply clk,
                        disableAnimation = None\<rparr>;
                  s2 = s\<lparr>messages := messages s @ [am]\<rparr>
              in if no_conversation (seen_activeConversationId p)
                 then s2\<lparr>activeConversationId := Some (currentConversationId p),
                         conversations :=
                           \<lparr>id_conv = currentConversationId p,
                            title = substring (content (userMsg p)) 0 30 @ ''...'',
                            updated_at = iso_conv clk\<rparr> # conversations s2\<rparr>
                 else s2)
         | Inl e_message \<Rightarrow>
             s\<lparr>messages := messages s @
                  [\<lparr>id_msg = toString (now_reply clk + 1), role = Assistant,
                    content = error_reply e_message, created_at = iso_reply clk,
                    disableAnimation = None\<rparr>]\<rparr>)
      in s'\<lparr>isSending := False\<rparr>)"

text \<open>One whole call with nothing else happening while it awaits.\<close>

definition handleSendMessage ::
  "clock_start \<Rightarrow> response settled \<Rightarrow> clock_finish \<Rightarrow> app_state \<Rightarrow> app_state" where
  "handleSendMessage c0 net c1 s =
     (case handleSendMessage_start c0 s of
        None \<Rightarrow> s
      | Some (s1, p) \<Rightarrow> handleSendMessage_finish p net c1 s1)"

section \<open>The other handlers\<close>

definition MOCK_USER :: UserProfile where
  "MOCK_USER =
     \<lparr>id_user = ''user-123'', name = ''Nordik Staff'',
      email = ''staff@nordikrecovery.com'',
      avatar_url = Some ''https://picsum.photos/seed/nordik/200''\<rparr>"

text \<open>\<open>INITIAL_MESSAGE\<close>, given the timestamp taken when the module is loaded.\<close>

definition INITIAL_MESSAGE :: "string \<Rightarrow> Message" where
  "INITIAL_MESSAGE loaded =
     \<lparr>id_msg = ''msg-0'', role = Assistant,
      content = ''Hello! I am the Nordik Assistant. How can I help you with our protocols or products today?'',
      created_at = loaded, disableAnimation = None\<rparr>"

definition handleLogin :: "app_state \<Rightarrow> app_state" where
  "handleLogin s = s\<lparr>isLoginLoading := True\<rparr>"

text \<open>The callback of the timer that \<open>handleLogin\<close> sets.\<close>

definition handleLogin_timer :: "string \<Rightarrow> app_state \<Rightarrow> app_state" where
  "handleLogin_timer stamp s =
     s\<lparr>user := Some MOCK_USER, isLoginLoading := False,
       conversations :=
         [\<lparr>id_conv = ''conv-1'', title = ''Cold Plunge Specs'', updated_at = stamp\<rparr>]\<rparr>"

definition handleLogout :: "app_state \<Rightarrow> app_state" where
  "handleLogout s =
     s\<lparr>user := None, conversations := [], messages := [], activeConversationId := None\<rparr>"

definition handleNewChat :: "string \<Rightarrow> app_state \<Rightarrow> app_state" where
  "handleNewChat loaded s =
     s\<lparr>activeConversationId := None, messages := [INITIAL_MESSAGE loaded],
       isSidebarOpen := False\<rparr>"

definition handleSelectConversation ::
  "string \<Rightarrow> string \<Rightarrow> string \<Rightarrow> app_state \<Rightarrow> app_state" where
  "handleSelectConversation i iso1 iso2 s =
     s\<lparr>activeConversationId := Some i,
       messages :=
         [\<lparr>id_msg = ''hist-'' @ i @ ''-1'', role = User,
           content = ''Previous question about durability...'',
           created_at = iso1, disableAnimation = None\<rparr>,
          \<lparr>id_msg = ''hist-'' @ i @ ''-2'', role = Assistant,
           content = ''The durability standards for Nordik tubs are...'',
           created_at = iso2, disableAnimation = None\<rparr>],
       isSidebarOpen := False\<rparr>"

definition handleSaveSettings :: "string \<Rightarrow> string \<Rightarrow> string \<Rightarrow> app_state \<Rightarrow> app_state" where
  "handleSaveSettings loaded key ver s =
     (let s1 = s\<lparr>apiKey := key, versionId := ver, isSettingsOpen := False\<rparr>
      in if no_conversation (activeConversationId s)
         then s1\<lparr>messages := [INITIAL_MESSAGE loaded]\<rparr> else s1)"

definition toggleTheme :: "app_state \<Rightarrow> app_state" where
  "toggleTheme s = s\<lparr>isDarkMode := \<not> isDarkMode s\<rparr>"

text \<open>The \<open>onChange\<close> of the input box and the \<open>onTranscript\<close> of the voice input.\<close>

definition onChange :: "string \<Rightarrow> app_state \<Rightarrow> app_state" where
  "onChange v s = s\<lparr>inputText := v\<rparr>"

definition onTranscript :: "string \<Rightarrow> app_state \<Rightarrow> app_state" where
  "onTranscript t s =
     s\<lparr>inputText := inputText s @ (if truthy (inputText s) then '' '' else []) @ t\<rparr>"

section \<open>The event loop\<close>

text \<open>
  The application together with the handlers that are suspended at their \<open>await\<close>.
  An event is a user action, or the settling of the promise that the \<open>k\<close>-th
  suspended handler awaits.
\<close>

datatype event =
    Login
  | LoginTimer string
  | Logout
  | NewChat
  | Select string string string
  | SaveSettings string string
  | Change string
  | Transcript string
  | ToggleTheme
  | SetSidebarOpen bool
  | SetSettingsOpen bool
  | Send clock_start
  | Settle nat "response settled" clock_finish

type_synonym system = "app_state \<times> pending list"

fun step :: "string \<Rightarrow> event \<Rightarrow> system \<Rightarrow> system" where
  "step loaded Login (s, fl) = (handleLogin s, fl)"
| "step loaded (LoginTimer stamp) (s, fl) = (handleLogin_timer stamp s, fl)"
| "step loaded Logout (s, fl) = (handleLogout s, fl)"
| "step loaded NewChat (s, fl) = (handleNewChat loaded s, fl)"
| "step loaded (Select i iso1 iso2) (s, fl) = (handleSelectConversation i iso1 iso2 s, fl)"
| "step loaded (SaveSettings key ver) (s, fl) = (handleSaveSettings loaded key ver s, fl)"
| "step loaded (Change v) (s, fl) = (onChange v s, fl)"
| "step loaded (Transcript t) (s, fl) = (onTranscript t s, fl)"
| "step loaded ToggleTheme (s, fl) = (toggleTheme s, fl)"
| "step loaded (SetSidebarOpen b) (s, fl) = (s\<lparr>isSidebarOpen := b\<rparr>, fl)"
| "step loaded (SetSettingsOpen b) (s, fl) = (s\<lparr>isSettingsOpen := b\<rparr>, fl)"
| "step loaded (Send c) (s, fl) =
     (case handleSendMessage_start c s of
        None \<Rightarrow> (s, fl)
      | Some (s1, p) \<Rightarrow> (s1, fl @ [p]))"
| "step loaded (Settle k net c) (s, fl) =
     (if k < length fl
      then (handleSendMessage_finish (fl ! k) net c s, take k fl @ drop (Suc k) fl)
      else (s, fl))"

definition run :: "string \<Rightarrow> event list \<Rightarrow> system \<Rightarrow> system" where
  "run loaded es sys = foldl (\<lambda>x e. step loaded e x) sys es"

section \<open>The specification's words\<close>

text \<open>
  The reply that the specification describes for a successful response: the traces of
  kind \<open>text\<close> or \<open>speak\<close>, their payload messages in response order, joined by
  newlines. These three definitions follow the specification; \<open>parse_traces\<close> above
  follows the code.
\<close>

definition spoken :: "trace \<Rightarrow> bool" where
  "spoken t \<longleftrightarrow> trace_type t = ''text'' \<or> trace_type t = ''speak''"

fun spoken_messages :: "trace list \<Rightarrow> string list" where
  "spoken_messages [] = []"
| "spoken_messages (t # ts) =
     (if spoken t then (case payload_message t of None \<Rightarrow> [] | Some m \<Rightarrow> [m]) else [])
     @ spoken_messages ts"

fun join_lines :: "string list \<Rightarrow> string" where
  "join_lines [] = []"
| "join_lines [x] = x"
| "join_lines (x # y # zs) = x @ ''\<newline>'' @ join_lines (y # zs)"

text \<open>The single-flight guard as an invariant of the event loop: at most one handler is
  suspended, and the busy flag is set exactly while one is.\<close>

definition single_flight :: "system \<Rightarrow> bool" where
  "single_flight sys \<longleftrightarrow>
     length (snd sys) \<le> 1 \<and> (isSending (fst sys) \<longleftrightarrow> snd sys \<noteq> [])"

section \<open>A concrete session\<close>

text \<open>
  States with \<open>hello\<close> typed into the input box (without and with a credential, and
  with a send in flight), a blank input, clock readings, and three ways the network
  answers: a transport failure, a 401, and a 200 with two traces.
\<close>

definition demo_state :: app_state where
  "demo_state = initial_state\<lparr>inputText := ''hello''\<rparr>"

definition demo_keyed :: app_state where
  "demo_keyed = demo_state\<lparr>apiKey := ''VF.DM.demo''\<rparr>"

definition demo_busy :: app_state where
  "demo_busy = demo_state\<lparr>isSending := True\<rparr>"

definition demo_blank :: app_state where
  "demo_blank = initial_state\<lparr>inputText := '' \<newline> ''\<rparr>"

definition demo_clock0 :: clock_start where
  "demo_clock0 = \<lparr>now_user = 1000, iso_user = ''1970-01-01T00:00:01.000Z'', now_conv = 1000\<rparr>"

definition demo_clock1 :: clock_finish where
  "demo_clock1 = \<lparr>now_reply = 1040, iso_reply = ''1970-01-01T00:00:01.040Z'',
                   iso_conv = ''1970-01-01T00:00:01.040Z''\<rparr>"

definition demo_clock2 :: clock_start where
  "demo_clock2 = \<lparr>now_user = 1041, iso_user = ''1970-01-01T00:00:01.041Z'', now_conv = 1041\<rparr>"

definition demo_clock3 :: clock_finish where
  "demo_clock3 = \<lparr>now_reply = 1090, iso_reply = ''1970-01-01T00:00:01.090Z'',
                   iso_conv = ''1970-01-01T00:00:01.090Z''\<rparr>"

definition frozen_clock0 :: clock_start where
  "frozen_clock0 = \<lparr>now_user = 1000, iso_user = ''1970-01-01T00:00:01.000Z'', now_conv = 1000\<rparr>"

definition frozen_clock1 :: clock_finish where
  "frozen_clock1 = \<lparr>now_reply = 1000, iso_reply = ''1970-01-01T00:00:01.000Z'',
                     iso_conv = ''1970-01-01T00:00:01.000Z''\<rparr>"

definition demo_failure :: "response settled" where
  "demo_failure = Rejected ''Failed to fetch''"

definition demo_401 :: response where
  "demo_401 = \<lparr>ok = False, status = 401, body_text = Resolved ''unauthorized'',
               body_json = Rejected ''Unexpected token u in JSON at position 0''\<rparr>"

definition demo_traces :: "trace list" where
  "demo_traces = [Trace ''text'' (Some ''Hi''), Trace ''speak'' (Some ''there'')]"

definition demo_200 :: response where
  "demo_200 = \<lparr>ok = True, status = 200, body_text = Rejected ''body stream already read'',
               body_json = Resolved (Traces demo_traces)\<rparr>"

text \<open>The state and the suspended handler after \<open>hello\<close> is sent from \<open>demo_keyed\<close>.\<close>

definition demo_user_msg :: Message where
  "demo_user_msg =
     \<lparr>id_msg = ''1000'', role = User, content = ''hello'',
      created_at = ''1970-01-01T00:00:01.000Z'', disableAnimation = None\<rparr>"

definition demo_sent :: app_state where
  "demo_sent = demo_keyed\<lparr>messages := [demo_user_msg], inputText := [], isSending := True\<rparr>"

definition demo_pending :: pending where
  "demo_pending =
     \<lparr>userMsg = demo_user_msg, seen_activeConversationId = None,
      currentConversationId = ''conv-1000'',
      awaiting = Fetch \<lparr>req_user = ''user-conv-1000'', req_authorization = ''VF.DM.demo'',
                        req_versionID = ''production'', req_payload = ''hello''\<rparr>\<rparr>"

section \<open>Facts about strings\<close>

lemma trim_snoc_space: "is_space c \<Longrightarrow> trim (s @ [c]) = trim s"
proof -
  assume c: "is_space c"
  show ?thesis
  proof (cases "dropWhile is_space s = []")
    case True
    then have "\<forall>x\<in>set s. is_space x" by simp
    with c have "dropWhile is_space (s @ [c]) = []" by simp
    then have l: "trim (s @ [c]) = []" by (simp only: trim_def rev.simps dropWhile.simps)
    from True have "trim s = []" by (simp only: trim_def rev.simps dropWhile.simps)
    with l show ?thesis by simp
  next
    case False
    then have "\<exists>x\<in>set s. \<not> is_space x" by simp
    then have "dropWhile is_space (s @ [c]) = dropWhile is_space s @ [c]"
      by auto
    with c show ?thesis by (simp add: trim_def)
  qed
qed

lemma trim_unchanged:
  "s \<noteq> [] \<Longrightarrow> \<not> is_space (hd s) \<Longrightarrow> \<not> is_space (last s) \<Longrightarrow> trim s = s"
proof -
  assume ne: "s \<noteq> []" and h: "\<not> is_space (hd s)" and l: "\<not> is_space (last s)"
  from ne h have a: "dropWhile is_space s = s" by (cases s) simp_all
  from ne l have b: "dropWhile is_space (rev s) = rev s"
    by (cases "rev s") (simp_all add: last_rev[symmetric] hd_rev)
  show ?thesis by (simp add: trim_def a b)
qed

lemma is_space_newline: "is_space (CHR ''\<newline>'')"
  by (simp add: is_space_def)

lemma digit_value_digit: "d < 10 \<Longrightarrow> digit_value (digit d) = d"
proof -
  assume "d < 10"
  then have "d \<in> {0,1,2,3,4,5,6,7,8,9}" by auto
  then show ?thesis by (auto simp: digit_value_def digit_def)
qed

lemma read_decimal_snoc: "read_decimal (s @ [c]) = 10 * read_decimal s + digit_value c"
  by (simp add: read_decimal_def)

lemma read_decimal_toString: "read_decimal (toString n) = n"
proof (induction n rule: toString.induct)
  case (1 n)
  show ?case
  proof (cases "n < 10")
    case True
    then show ?thesis
      by (subst toString.simps) (simp add: read_decimal_def digit_value_digit)
  next
    case False
    with "1" have "read_decimal (toString (n div 10)) = n div 10" by simp
    with False show ?thesis
      by (subst toString.simps) (simp add: read_decimal_snoc digit_value_digit)
  qed
qed

lemma toString_inject: "toString a = toString b \<longleftrightarrow> a = b"
  by (metis read_decimal_toString)

lemma substring_0: "substring s 0 n = take n s"
  by (simp add: substring_def)

lemma sublist_middle: "sublist x (a @ b @ x @ c)"
  using sublist_appendI [of x "a @ b" c] by simp

lemma concat_lines:
  "ms \<noteq> [] \<Longrightarrow> concat (map (\<lambda>m. m @ ''\<newline>'') ms) = join_lines ms @ ''\<newline>''"
  by (induction ms rule: join_lines.induct) simp_all

section \<open>Facts about the handler\<close>

lemma start_None_iff:
  "handleSendMessage_start c s = None \<longleftrightarrow> \<not> truthy (trim (inputText s)) \<or> isSending s"
  by (simp add: handleSendMessage_start_def Let_def)

lemma start_busy: "isSending s \<Longrightarrow> handleSendMessage_start c s = None"
  by (simp add: start_None_iff)

lemma start_blank: "\<not> truthy (trim (inputText s)) \<Longrightarrow> handleSendMessage_start c s = None"
  by (simp add: start_None_iff)

lemma start_SomeD:
  assumes "handleSendMessage_start c s = Some (s1, p)"
  shows "s1 = s\<lparr>messages := messages s @ [userMsg p], inputText := [], isSending := True\<rparr>"
    and "userMsg p = \<lparr>id_msg = toString (now_user c), role = User, content = inputText s,
                       created_at = iso_user c, disableAnimation = None\<rparr>"
    and "seen_activeConversationId p = activeConversationId s"
    and "truthy (trim (inputText s))" and "\<not> isSending s"
  using assms by (auto simp: handleSendMessage_start_def Let_def split: if_splits)

lemma start_awaiting:
  assumes "handleSendMessage_start c s = Some (s1, p)"
  shows "awaiting p =
     (if truthy (apiKey s)
      then Fetch \<lparr>req_user = ''user-'' @ currentConversationId p,
                  req_authorization = trim (apiKey s),
                  req_versionID = or_else (trim (versionId s)) ''production'',
                  req_payload = inputText s\<rparr>
      else Timeout 2000)"
  using assms by (auto simp: handleSendMessage_start_def Let_def split: if_splits)

lemma start_minted:
  assumes "handleSendMessage_start c s = Some (s1, p)"
    and "no_conversation (activeConversationId s)"
  shows "currentConversationId p = ''conv-'' @ toString (now_conv c)"
  using assms
  by (auto simp: handleSendMessage_start_def Let_def no_conversation_def
      split: if_splits option.splits)

lemma finish_messages:
  "messages (handleSendMessage_finish p net c s) =
     messages s @
       [\<lparr>id_msg = toString (now_reply c + 1), role = Assistant,
         content = (case try_body p net of Inr a \<Rightarrow> trim a | Inl e \<Rightarrow> error_reply e),
         created_at = iso_reply c, disableAnimation = None\<rparr>]"
  by (simp add: handleSendMessage_finish_def Let_def split: sum.splits)

lemma finish_isSending: "isSending (handleSendMessage_finish p net c s) = False"
  by (simp add: handleSendMessage_finish_def Let_def split: sum.splits)

lemma finish_failed:
  "try_body p net = Inl e \<Longrightarrow>
   conversations (handleSendMessage_finish p net c s) = conversations s \<and>
   activeConversationId (handleSendMessage_finish p net c s) = activeConversationId s"
  by (simp add: handleSendMessage_finish_def Let_def)

lemma finish_registers:
  "try_body p net = Inr a \<Longrightarrow> no_conversation (seen_activeConversationId p) \<Longrightarrow>
   conversations (handleSendMessage_finish p net c s) =
     \<lparr>id_conv = currentConversationId p,
      title = take 30 (content (userMsg p)) @ ''...'',
      updated_at = iso_conv c\<rparr> # conversations s \<and>
   activeConversationId (handleSendMessage_finish p net c s) = Some (currentConversationId p)"
  by (simp add: handleSendMessage_finish_def Let_def substring_0)

lemma finish_others:
  "inputText (handleSendMessage_finish p net c s) = inputText s"
  "apiKey (handleSendMessage_finish p net c s) = apiKey s"
  by (simp_all add: handleSendMessage_finish_def Let_def split: sum.splits)

lemma send_messages:
  assumes "truthy (trim (inputText s))" and "\<not> isSending s"
  obtains s1 p where "handleSendMessage_start c0 s = Some (s1, p)"
    and "handleSendMessage c0 net c1 s = handleSendMessage_finish p net c1 s1"
proof -
  from assms obtain s1 p where st: "handleSendMessage_start c0 s = Some (s1, p)"
    using start_None_iff [of c0 s] by (cases "handleSendMessage_start c0 s") auto
  then have "handleSendMessage c0 net c1 s = handleSendMessage_finish p net c1 s1"
    by (simp add: handleSendMessage_def)
  with st that show thesis by blast
qed

lemma send_result_messages:
  assumes "handleSendMessage_start c0 s = Some (s1, p)"
  shows "messages (handleSendMessage c0 net c1 s) =
     messages s @
       [\<lparr>id_msg = toString (now_user c0), role = User, content = inputText s,
         created_at = iso_user c0, disableAnimation = None\<rparr>,
        \<lparr>id_msg = toString (now_reply c1 + 1), role = Assistant,
         content = (case try_body p net of Inr a \<Rightarrow> trim a | Inl e \<Rightarrow> error_reply e),
         created_at = iso_reply c1, disableAnimation = None\<rparr>]"
  using assms start_SomeD(1,2) [OF assms]
  by (simp add: handleSendMessage_def finish_messages)

subsection \<open>The body of the try block\<close>

lemma parse_traces_spoken:
  "\<forall>t\<in>set ts. spoken t \<longrightarrow> payload_message t \<noteq> None \<Longrightarrow>
   parse_traces ts acc = Inr (acc @ concat (map (\<lambda>m. m @ ''\<newline>'') (spoken_messages ts)))"
  by (induction ts arbitrary: acc) (auto simp: spoken_def)

lemma spoken_messages_Nil:
  "\<forall>t\<in>set ts. spoken t \<longrightarrow> payload_message t \<noteq> None \<Longrightarrow>
   spoken_messages ts = [] \<longleftrightarrow> \<not> (\<exists>t\<in>set ts. spoken t)"
  by (induction ts) auto

lemma trim_fallback: "trim fallback_notice = fallback_notice"
  by (rule trim_unchanged) (simp_all add: fallback_notice_def is_space_def)

lemma trim_mock_reply: "trim (mock_reply c) = mock_reply c"
  by (rule trim_unchanged) (simp_all add: mock_reply_def is_space_def)

lemma try_body_traces:
  assumes "awaiting p = Fetch rq" and "ok r" and "body_json r = Resolved (Traces ts)"
    and "\<forall>t\<in>set ts. spoken t \<longrightarrow> payload_message t \<noteq> None"
  shows "try_body p (Resolved r) =
     Inr (if \<exists>t\<in>set ts. spoken t then join_lines (spoken_messages ts) @ ''\<newline>''
          else fallback_notice)"
proof (cases "spoken_messages ts = []")
  case True
  with assms(4) have "\<not> (\<exists>t\<in>set ts. spoken t)" by (simp add: spoken_messages_Nil)
  with True assms show ?thesis
    by (simp add: try_body_def parse_traces_spoken truthy_def)
next
  case False
  with assms(4) have "\<exists>t\<in>set ts. spoken t" by (simp add: spoken_messages_Nil)
  with False assms show ?thesis
    by (simp add: try_body_def parse_traces_spoken truthy_def concat_lines)
qed

lemma try_body_failed_is_fetch:
  "try_body p net = Inl e \<Longrightarrow> \<exists>rq. awaiting p = Fetch rq"
  by (cases "awaiting p") (simp_all add: try_body_def)

lemma truthy_api_error: "truthy (api_error st b)"
  by (simp add: truthy_def api_error_def)

subsection \<open>The single-flight invariant\<close>

lemma single_flight_step: "single_flight sys \<Longrightarrow> single_flight (step loaded e sys)"
proof -
  assume inv: "single_flight sys"
  obtain s fl where sys: "sys = (s, fl)" by (cases sys)
  show ?thesis
  proof (cases e)
    case (Send c)
    show ?thesis
    proof (cases "handleSendMessage_start c s")
      case None
      with inv sys Send show ?thesis by simp
    next
      case (Some a)
      then obtain s1 p where a: "handleSendMessage_start c s = Some (s1, p)" by (cases a) simp
      from start_SomeD(5) [OF a] inv sys have "fl = []" by (simp add: single_flight_def)
      with a sys Send show ?thesis
        by (simp add: single_flight_def start_SomeD(1) [OF a])
    qed
  next
    case (Settle k net c)
    show ?thesis
    proof (cases "k < length fl")
      case True
      with inv sys have "length fl = 1" "k = 0" by (simp_all add: single_flight_def)
      with sys Settle show ?thesis
        by (simp add: single_flight_def finish_isSending)
    next
      case False
      with inv sys Settle show ?thesis by simp
    qed
  qed (use inv sys in \<open>simp_all add: single_flight_def handleLogin_def handleLogin_timer_def
        handleLogout_def handleNewChat_def handleSelectConversation_def
        handleSaveSettings_def Let_def onChange_def onTranscript_def toggleTheme_def\<close>)
qed

lemma single_flight_run: "single_flight sys \<Longrightarrow> single_flight (run loaded es sys)"
  unfolding run_def by (induction es arbitrary: sys) (simp_all add: single_flight_step)

lemma single_flight_initial: "single_flight (initial_state, [])"
  by (simp add: single_flight_def initial_state_def)

subsection \<open>The concrete session, evaluated\<close>

lemmas eval_defs =
  handleSendMessage_def handleSendMessage_start_def handleSendMessage_finish_def
  try_body_def Let_def truthy_def trim_def is_space_def or_else_def no_conversation_def
  toString.simps digit_def onChange_def substring_def error_reply_def api_error_def
  mock_reply_def fallback_notice_def

lemma demo_keyed_ready:
  "truthy (trim (inputText demo_keyed))" "\<not> isSending demo_keyed" "truthy (apiKey demo_keyed)"
  "no_conversation (activeConversationId demo_keyed)"
  by (simp_all add: demo_keyed_def demo_state_def initial_state_def truthy_def trim_def
      is_space_def no_conversation_def)

lemma demo_state_ready:
  "truthy (trim (inputText demo_state))" "\<not> isSending demo_state" "\<not> truthy (apiKey demo_state)"
  "no_conversation (activeConversationId demo_state)"
  by (simp_all add: demo_state_def initial_state_def truthy_def trim_def
      is_space_def no_conversation_def)

lemma demo_start: "handleSendMessage_start demo_clock0 demo_keyed = Some (demo_sent, demo_pending)"
  by (simp add: demo_keyed_def demo_state_def initial_state_def demo_clock0_def demo_sent_def
      demo_pending_def demo_user_msg_def eval_defs)

lemma demo_try_200: "try_body demo_pending (Resolved demo_200) = Inr ''Hi\<newline>there\<newline>''"
  by (simp add: demo_pending_def demo_user_msg_def demo_200_def demo_traces_def eval_defs)

lemma demo_try_failure: "try_body demo_pending demo_failure = Inl ''Failed to fetch''"
  by (simp add: demo_pending_def demo_failure_def eval_defs)

lemma demo_traces_payloads: "\<forall>t\<in>set demo_traces. spoken t \<longrightarrow> payload_message t \<noteq> None"
  by (simp add: demo_traces_def)

section \<open>The send and receive cycle\<close>

text \<open>
  C1: for an input that is not empty after trimming, with no send in flight, the
  handler appends one user message (the input as typed) before it awaits, and one
  assistant message after: the trimmed reply when the \<open>try\<close> block ends normally, the
  error text when an exception reaches \<open>catch\<close>. The transcript is otherwise as it was.
\<close>

theorem send_appends_user_then_assistant:
  assumes "truthy (trim (inputText s))" and "\<not> isSending s"
  shows "\<exists>s1 p am.
           handleSendMessage_start c0 s = Some (s1, p) \<and>
           messages s1 = messages s @ [userMsg p] \<and>
           role (userMsg p) = User \<and> content (userMsg p) = inputText s \<and>
           messages (handleSendMessage c0 net c1 s) = messages s @ [userMsg p, am] \<and>
           role am = Assistant \<and>
           content am = (case try_body p net of Inr a \<Rightarrow> trim a | Inl e \<Rightarrow> error_reply e)"
proof -
  from assms obtain s1 p where st: "handleSendMessage_start c0 s = Some (s1, p)"
    using start_None_iff [of c0 s] by (cases "handleSendMessage_start c0 s") auto
  have m1: "messages s1 = messages s @ [userMsg p]"
    by (simp add: start_SomeD(1) [OF st])
  have u: "role (userMsg p) = User" "content (userMsg p) = inputText s"
    by (simp_all add: start_SomeD(2) [OF st])
  have "handleSendMessage c0 net c1 s = handleSendMessage_finish p net c1 s1"
    by (simp add: handleSendMessage_def st)
  then have m2: "messages (handleSendMessage c0 net c1 s) =
      messages s @ [userMsg p,
        \<lparr>id_msg = toString (now_reply c1 + 1), role = Assistant,
         content = (case try_body p net of Inr a \<Rightarrow> trim a | Inl e \<Rightarrow> error_reply e),
         created_at = iso_reply c1, disableAnimation = None\<rparr>]"
    by (simp add: finish_messages m1)
  show ?thesis
    using st m1 u m2 by simp
qed

theorem send_appends_user_then_assistant_witness:
  "truthy (trim (inputText demo_keyed)) \<and> \<not> isSending demo_keyed \<and>
   (\<exists>s1 p am.
      handleSendMessage_start demo_clock0 demo_keyed = Some (s1, p) \<and>
      messages s1 = messages demo_keyed @ [userMsg p] \<and>
      role (userMsg p) = User \<and> content (userMsg p) = inputText demo_keyed \<and>
      messages (handleSendMessage demo_clock0 (Rejected ''Failed to fetch'') demo_clock1 demo_keyed)
        = messages demo_keyed @ [userMsg p, am] \<and>
      role am = Assistant \<and>
      content am = (case try_body p (Rejected ''Failed to fetch'') of
                      Inr a \<Rightarrow> trim a | Inl e \<Rightarrow> error_reply e))"
  using demo_keyed_ready(1,2)
    send_appends_user_then_assistant [OF demo_keyed_ready(1,2),
      of demo_clock0 "Rejected ''Failed to fetch''" demo_clock1]
  by blast


text \<open>
  C2: while the busy flag is set, a call of the handler returns at its guard: no
  handler is suspended and the state is the same. In every run of the event loop from
  the initial state, at most one handler is suspended at its \<open>await\<close>.
\<close>

theorem busy_send_is_noop:
  "(isSending s \<longrightarrow>
      handleSendMessage_start c0 s = None \<and> handleSendMessage c0 net c1 s = s \<and>
      step loaded (Send c0) (s, fl) = (s, fl)) \<and>
   length (snd (run loaded es (initial_state, []))) \<le> 1"
proof -
  have "single_flight (run loaded es (initial_state, []))"
    by (rule single_flight_run) (rule single_flight_initial)
  then show ?thesis
    by (simp add: single_flight_def start_busy handleSendMessage_def)
qed

theorem busy_send_is_noop_witness:
  "isSending demo_busy \<and>
   handleSendMessage_start demo_clock0 demo_busy = None \<and>
   handleSendMessage demo_clock0 demo_failure demo_clock1 demo_busy = demo_busy \<and>
   step [] (Send demo_clock0) (demo_busy, [demo_pending]) = (demo_busy, [demo_pending]) \<and>
   length (snd (run [] [Change ''hello'', Send demo_clock0, Change ''again'', Send demo_clock2]
                  (initial_state, []))) \<le> 1"
proof -
  have b: "isSending demo_busy" by (simp add: demo_busy_def)
  from busy_send_is_noop [of demo_busy demo_clock0 demo_failure demo_clock1 "[]" "[demo_pending]"
      "[Change ''hello'', Send demo_clock0, Change ''again'', Send demo_clock2]"] b
  show ?thesis by blast
qed


text \<open>
  C3: a call that passes the guard clears the busy flag when its promise settles,
  however it settles and whatever happened to the state in between; after it, an input
  that is not blank passes the guard again.
\<close>

theorem busy_flag_released:
  assumes "handleSendMessage_start c0 s = Some (s1, p)"
  shows "\<not> isSending (handleSendMessage_finish p net c1 s') \<and>
         \<not> isSending (handleSendMessage c0 net c1 s) \<and>
         (truthy (trim v) \<longrightarrow>
            handleSendMessage_start c2 (onChange v (handleSendMessage c0 net c1 s)) \<noteq> None)"
  using assms
  by (simp add: finish_isSending handleSendMessage_def start_None_iff onChange_def)

theorem busy_flag_released_witness:
  "handleSendMessage_start demo_clock0 demo_keyed = Some (demo_sent, demo_pending) \<and>
   \<not> isSending (handleSendMessage_finish demo_pending demo_failure demo_clock1 demo_sent) \<and>
   \<not> isSending (handleSendMessage demo_clock0 demo_failure demo_clock1 demo_keyed) \<and>
   truthy (trim ''again'') \<and>
   handleSendMessage_start demo_clock2
     (onChange ''again'' (handleSendMessage demo_clock0 demo_failure demo_clock1 demo_keyed))
   \<noteq> None"
proof -
  have a: "truthy (trim ''again'')"
    by (simp add: truthy_def trim_def is_space_def)
  from busy_flag_released [OF demo_start, of demo_failure demo_clock1 demo_sent "''again''" demo_clock2]
  show ?thesis
    using demo_start a by blast
qed


text \<open>
  C7: an input that is empty after trimming is ignored: the handler returns at its
  guard, nothing is awaited, and the state is the same.
\<close>

theorem blank_input_ignored:
  "\<not> truthy (trim (inputText s)) \<Longrightarrow>
   handleSendMessage_start c0 s = None \<and> handleSendMessage c0 net c1 s = s"
  by (simp add: start_blank handleSendMessage_def)

theorem blank_input_ignored_witness:
  "\<not> truthy (trim (inputText demo_blank)) \<and>
   handleSendMessage_start demo_clock0 demo_blank = None \<and>
   handleSendMessage demo_clock0 demo_failure demo_clock1 demo_blank = demo_blank"
proof -
  have b: "\<not> truthy (trim (inputText demo_blank))"
    by (simp add: demo_blank_def truthy_def trim_def is_space_def)
  from b blank_input_ignored [OF b, of demo_clock0 demo_failure demo_clock1]
  show ?thesis by blast
qed


section \<open>The content of the reply\<close>

text \<open>
  C4: with a credential, on a successful response whose \<open>text\<close> and \<open>speak\<close>
  traces carry a payload, the content of the assistant message is the trimmed,
  newline-joined payload messages of those traces in response order, and the fallback
  notice when there is no such trace. For the traces \<open>Hi\<close> and \<open>there\<close> it is
  \<open>Hi\<close>, a newline, \<open>there\<close>.
\<close>

theorem traces_reply_content:
  assumes "truthy (trim (inputText s))" and "\<not> isSending s" and "truthy (apiKey s)"
    and "ok r" and "body_json r = Resolved (Traces ts)"
    and "\<forall>t\<in>set ts. spoken t \<longrightarrow> payload_message t \<noteq> None"
  shows "\<exists>um am.
           messages (handleSendMessage c0 (Resolved r) c1 s) = messages s @ [um, am] \<and>
           role am = Assistant \<and>
           content am = (if \<exists>t\<in>set ts. spoken t
                         then trim (join_lines (spoken_messages ts))
                         else fallback_notice) \<and>
           (ts = [Trace ''text'' (Some ''Hi''), Trace ''speak'' (Some ''there'')] \<longrightarrow>
              content am = ''Hi\<newline>there'')"
proof -
  from assms(1,2) obtain s1 p where st: "handleSendMessage_start c0 s = Some (s1, p)"
    by (rule send_messages)
  from start_awaiting [OF st] assms(3) obtain rq where aw: "awaiting p = Fetch rq"
    by simp
  let ?c = "if \<exists>t\<in>set ts. spoken t then trim (join_lines (spoken_messages ts))
            else fallback_notice"
  have tb: "(case try_body p (Resolved r) of Inr a \<Rightarrow> trim a | Inl e \<Rightarrow> error_reply e) = ?c"
    by (simp add: try_body_traces [OF aw assms(4,5,6)] trim_fallback
        trim_snoc_space [OF is_space_newline])
  have ex: "ts = [Trace ''text'' (Some ''Hi''), Trace ''speak'' (Some ''there'')] \<Longrightarrow>
      ?c = ''Hi\<newline>there''"
    by (simp add: spoken_def trim_def is_space_def)
  show ?thesis
    using send_result_messages [OF st, of "Resolved r" c1] tb ex by auto
qed

theorem traces_reply_content_witness:
  "truthy (trim (inputText demo_keyed)) \<and> \<not> isSending demo_keyed \<and>
   truthy (apiKey demo_keyed) \<and> ok demo_200 \<and>
   body_json demo_200 = Resolved (Traces demo_traces) \<and>
   filter (\<lambda>t. spoken t \<and> payload_message t = None) demo_traces = [] \<and>
   (\<exists>um am.
      messages (handleSendMessage demo_clock0 (Resolved demo_200) demo_clock1 demo_keyed)
        = messages demo_keyed @ [um, am] \<and>
      role am = Assistant \<and> content am = ''Hi\<newline>there'')"
proof -
  have o: "ok demo_200" and j: "body_json demo_200 = Resolved (Traces demo_traces)"
    by (simp_all add: demo_200_def)
  from traces_reply_content [OF demo_keyed_ready(1,2,3) o j demo_traces_payloads,
      of demo_clock0 demo_clock1]
  obtain um am where
    "messages (handleSendMessage demo_clock0 (Resolved demo_200) demo_clock1 demo_keyed)
       = messages demo_keyed @ [um, am]"
    and "role am = Assistant"
    and "demo_traces = [Trace ''text'' (Some ''Hi''), Trace ''speak'' (Some ''there'')] \<longrightarrow>
         content am = ''Hi\<newline>there''"
    by blast
  moreover have "filter (\<lambda>t. spoken t \<and> payload_message t = None) demo_traces = []"
    by (simp add: demo_traces_def)
  ultimately show ?thesis
    using demo_keyed_ready(1,2,3) o j by (auto simp: demo_traces_def)
qed


text \<open>
  C5: with a credential, on a response that is not \<open>ok\<close> and whose body can be
  read, the handler appends an assistant message whose content holds the status code
  in decimal and the raw body; the exception thrown for it ends in \<open>catch\<close>, and the
  handler returns a state.
\<close>

theorem http_error_reported:
  assumes "truthy (trim (inputText s))" and "\<not> isSending s" and "truthy (apiKey s)"
    and "\<not> ok r" and "body_text r = Resolved b"
  shows "\<exists>um am.
           messages (handleSendMessage c0 (Resolved r) c1 s) = messages s @ [um, am] \<and>
           role am = Assistant \<and>
           content am = error_reply (api_error (status r) b) \<and>
           sublist (toString (status r)) (content am) \<and>
           sublist b (content am)"
proof -
  from assms(1,2) obtain s1 p where st: "handleSendMessage_start c0 s = Some (s1, p)"
    by (rule send_messages)
  from start_awaiting [OF st] assms(3) obtain rq where aw: "awaiting p = Fetch rq"
    by simp
  have tb: "try_body p (Resolved r) = Inl (api_error (status r) b)"
    using aw assms(4,5) by (simp add: try_body_def)
  have e: "error_reply (api_error (status r) b) =
      ''Error connecting to Voiceflow: '' @ ''VF API Error ('' @ toString (status r) @
      (''): '' @ b @ ''. \<newline>\<newline>Please check your API Key in Settings.'')"
    using truthy_api_error [of "status r" b]
    by (simp add: error_reply_def or_else_def) (simp add: api_error_def)
  have s1: "sublist (toString (status r)) (error_reply (api_error (status r) b))"
    unfolding e by (rule sublist_middle)
  have "error_reply (api_error (status r) b) =
      ''Error connecting to Voiceflow: '' @ (''VF API Error ('' @ toString (status r) @ ''): '') @ b @
      ''. \<newline>\<newline>Please check your API Key in Settings.''"
    unfolding e by simp
  then have s2: "sublist b (error_reply (api_error (status r) b))"
    by (simp only: sublist_middle)
  show ?thesis
    using send_result_messages [OF st, of "Resolved r" c1] tb s1 s2 by simp
qed

theorem http_error_reported_witness:
  "truthy (trim (inputText demo_keyed)) \<and> \<not> isSending demo_keyed \<and>
   truthy (apiKey demo_keyed) \<and> \<not> ok demo_401 \<and> body_text demo_401 = Resolved ''unauthorized'' \<and>
   (\<exists>um am.
      messages (handleSendMessage demo_clock0 (Resolved demo_401) demo_clock1 demo_keyed)
        = messages demo_keyed @ [um, am] \<and>
      role am = Assistant \<and>
      sublist ''401'' (content am) \<and> sublist ''unauthorized'' (content am))"
proof -
  have o: "\<not> ok demo_401" and b: "body_text demo_401 = Resolved ''unauthorized''"
    and st: "toString (status demo_401) = ''401''"
    by (simp_all add: demo_401_def toString.simps digit_def)
  from http_error_reported [OF demo_keyed_ready(1,2,3) o b, of demo_clock0 demo_clock1]
  show ?thesis
    using demo_keyed_ready(1,2,3) o b unfolding st by blast
qed


text \<open>
  C9: without a credential the handler awaits the timer of 2000 milliseconds and no
  \<open>fetch\<close>; the assistant message holds the input as typed and the mock-mode notice,
  and the result does not depend on the network.
\<close>

theorem mock_mode_echo:
  assumes "truthy (trim (inputText s))" and "\<not> isSending s" and "\<not> truthy (apiKey s)"
  shows "\<exists>s1 p um am.
           handleSendMessage_start c0 s = Some (s1, p) \<and> awaiting p = Timeout 2000 \<and>
           messages (handleSendMessage c0 net c1 s) = messages s @ [um, am] \<and>
           role am = Assistant \<and>
           content am = mock_reply (inputText s) \<and>
           sublist (inputText s) (content am) \<and>
           sublist ''[MOCK MODE]'' (content am) \<and>
           handleSendMessage c0 net' c1 s = handleSendMessage c0 net c1 s"
proof -
  from assms(1,2) obtain s1 p where st: "handleSendMessage_start c0 s = Some (s1, p)"
    by (rule send_messages)
  from start_awaiting [OF st] assms(3) have aw: "awaiting p = Timeout 2000"
    by simp
  have tb: "try_body p net = Inr (mock_reply (inputText s))"
    using aw by (simp add: try_body_def start_SomeD(2) [OF st])
  have m: \<open>mock_reply (inputText s) = [] @ ''[MOCK MODE]'' @
      ('' You asked: "'' @ inputText s @
       ''". \<newline>\<newline>To test your real agent, click the Settings gear in the sidebar and enter your Voiceflow API Key.'')\<close>
    by (simp add: mock_reply_def)
  have s1: "sublist ''[MOCK MODE]'' (mock_reply (inputText s))"
    unfolding m by (rule sublist_appendI)
  have s2: "sublist (inputText s) (mock_reply (inputText s))"
    unfolding mock_reply_def by (rule sublist_appendI)
  have "try_body p net' = try_body p net"
    using aw by (simp add: try_body_def)
  then have same: "handleSendMessage c0 net' c1 s = handleSendMessage c0 net c1 s"
    by (simp add: handleSendMessage_def st handleSendMessage_finish_def)
  show ?thesis
    using st aw send_result_messages [OF st, of net c1] tb s1 s2 same
    by (simp add: trim_mock_reply)
qed

theorem mock_mode_echo_witness:
  "truthy (trim (inputText demo_state)) \<and> \<not> isSending demo_state \<and>
   \<not> truthy (apiKey demo_state) \<and>
   (\<exists>s1 p um am.
      handleSendMessage_start demo_clock0 demo_state = Some (s1, p) \<and>
      awaiting p = Timeout 2000 \<and>
      messages (handleSendMessage demo_clock0 demo_failure demo_clock1 demo_state)
        = messages demo_state @ [um, am] \<and>
      role am = Assistant \<and>
      sublist ''hello'' (content am) \<and> sublist ''[MOCK MODE]'' (content am) \<and>
      handleSendMessage demo_clock0 (Resolved demo_200) demo_clock1 demo_state
        = handleSendMessage demo_clock0 demo_failure demo_clock1 demo_state)"
proof -
  have i: "inputText demo_state = ''hello''"
    by (simp add: demo_state_def)
  from mock_mode_echo [OF demo_state_ready(1,2,3), of demo_clock0 demo_failure demo_clock1 "Resolved demo_200"]
  show ?thesis
    using demo_state_ready(1,2,3) unfolding i by blast
qed


section \<open>The conversation registry\<close>

text \<open>
  C6: when no conversation is active and the \<open>try\<close> block ends normally, the
  handler puts exactly one new summary in front of the registry; its title is the first
  30 characters of the input followed by three dots, its id is minted from the clock,
  and that id becomes the active conversation.
\<close>

theorem first_send_registers_conversation:
  assumes "no_conversation (activeConversationId s)"
    and "handleSendMessage_start c0 s = Some (s1, p)"
    and "try_body p net = Inr a"
  shows "conversations (handleSendMessage c0 net c1 s) =
           \<lparr>id_conv = ''conv-'' @ toString (now_conv c0),
            title = take 30 (inputText s) @ ''...'',
            updated_at = iso_conv c1\<rparr> # conversations s \<and>
         activeConversationId (handleSendMessage c0 net c1 s) =
           Some (''conv-'' @ toString (now_conv c0))"
proof -
  have h: "handleSendMessage c0 net c1 s = handleSendMessage_finish p net c1 s1"
    by (simp add: handleSendMessage_def assms(2))
  have seen: "no_conversation (seen_activeConversationId p)"
    using assms(1) by (simp add: start_SomeD(3) [OF assms(2)])
  have c: "conversations s1 = conversations s"
    by (simp add: start_SomeD(1) [OF assms(2)])
  have u: "content (userMsg p) = inputText s"
    by (simp add: start_SomeD(2) [OF assms(2)])
  show ?thesis
    using finish_registers [OF assms(3) seen, of c1 s1]
    by (simp add: h c u start_minted [OF assms(2,1)])
qed

theorem first_send_registers_conversation_witness:
  "no_conversation (activeConversationId demo_keyed) \<and>
   handleSendMessage_start demo_clock0 demo_keyed = Some (demo_sent, demo_pending) \<and>
   try_body demo_pending (Resolved demo_200) = Inr ''Hi\<newline>there\<newline>'' \<and>
   conversations (handleSendMessage demo_clock0 (Resolved demo_200) demo_clock1 demo_keyed) =
     [\<lparr>id_conv = ''conv-1000'', title = ''hello...'',
       updated_at = ''1970-01-01T00:00:01.040Z''\<rparr>] \<and>
   activeConversationId (handleSendMessage demo_clock0 (Resolved demo_200) demo_clock1 demo_keyed)
     = Some ''conv-1000''"
proof -
  have e: "''conv-'' @ toString (now_conv demo_clock0) = ''conv-1000''"
    "take 30 (inputText demo_keyed) @ ''...'' = ''hello...''"
    "iso_conv demo_clock1 = ''1970-01-01T00:00:01.040Z''"
    "conversations demo_keyed = []"
    by (simp_all add: demo_keyed_def demo_state_def initial_state_def demo_clock0_def
        demo_clock1_def toString.simps digit_def)
  from first_send_registers_conversation [OF demo_keyed_ready(4) demo_start demo_try_200,
      of demo_clock1]
  show ?thesis
    using demo_keyed_ready(4) demo_start demo_try_200 unfolding e by blast
qed


text \<open>When the send fails, the first message of a new chat registers nothing: here the
  response is a 401.\<close>

theorem failed_first_send_registers_nothing:
  "no_conversation (activeConversationId demo_keyed) \<and>
   map content (messages (handleSendMessage demo_clock0 (Resolved demo_401) demo_clock1 demo_keyed))
     = [''hello'',
        ''Error connecting to Voiceflow: VF API Error (401): unauthorized. \<newline>\<newline>Please check your API Key in Settings.''] \<and>
   conversations (handleSendMessage demo_clock0 (Resolved demo_401) demo_clock1 demo_keyed) = []"
  by (simp add: demo_keyed_def demo_state_def initial_state_def demo_clock0_def
      demo_clock1_def demo_401_def eval_defs)

text \<open>
  C10: when the first turn of a new chat fails, the error message is appended, the
  registry and the active conversation id are as before, and the minted id is kept
  nowhere: a retry mints its id from its own clock reading, so that the conversation id
  and the session key of the retry differ from those of the failed turn exactly when
  the two clock readings differ.
\<close>

theorem failed_first_turn:
  assumes "no_conversation (activeConversationId s)"
    and "handleSendMessage_start c0 s = Some (s1, p)"
    and "try_body p net = Inl e"
    and "handleSendMessage_start c2 (onChange v (handleSendMessage c0 net c1 s)) = Some (s3, p')"
  shows "messages (handleSendMessage c0 net c1 s) =
           messages s @
             [userMsg p,
              \<lparr>id_msg = toString (now_reply c1 + 1), role = Assistant,
               content = error_reply e, created_at = iso_reply c1,
               disableAnimation = None\<rparr>] \<and>
         conversations (handleSendMessage c0 net c1 s) = conversations s \<and>
         activeConversationId (handleSendMessage c0 net c1 s) = activeConversationId s \<and>
         (currentConversationId p' = currentConversationId p \<longleftrightarrow> now_conv c2 = now_conv c0) \<and>
         (\<exists>rq rq'. awaiting p = Fetch rq \<and> awaiting p' = Fetch rq' \<and>
            (req_user rq' = req_user rq \<longleftrightarrow> now_conv c2 = now_conv c0))"
proof -
  let ?r = "handleSendMessage c0 net c1 s"
  have h: "?r = handleSendMessage_finish p net c1 s1"
    by (simp add: handleSendMessage_def assms(2))
  have s1: "s1 = s\<lparr>messages := messages s @ [userMsg p], inputText := [], isSending := True\<rparr>"
    by (rule start_SomeD(1) [OF assms(2)])
  have m: "messages ?r = messages s @
             [userMsg p,
              \<lparr>id_msg = toString (now_reply c1 + 1), role = Assistant,
               content = error_reply e, created_at = iso_reply c1,
               disableAnimation = None\<rparr>]"
    by (simp add: h finish_messages assms(3)) (simp add: s1)
  have cv: "conversations ?r = conversations s" and av: "activeConversationId ?r = activeConversationId s"
    using finish_failed [OF assms(3), of c1 s1] by (simp_all add: h s1)
  have k: "apiKey ?r = apiKey s"
    by (simp add: h finish_others s1)
  have n': "no_conversation (activeConversationId (onChange v ?r))"
    using assms(1) by (simp add: onChange_def av)
  have id0: "currentConversationId p = ''conv-'' @ toString (now_conv c0)"
    by (rule start_minted [OF assms(2,1)])
  have id2: "currentConversationId p' = ''conv-'' @ toString (now_conv c2)"
    by (rule start_minted [OF assms(4) n'])
  have ids: "currentConversationId p' = currentConversationId p \<longleftrightarrow> now_conv c2 = now_conv c0"
    by (simp add: id0 id2 toString_inject)
  from try_body_failed_is_fetch [OF assms(3)] obtain rq where rq: "awaiting p = Fetch rq" ..
  with start_awaiting [OF assms(2)] have key: "truthy (apiKey s)"
    by (simp split: if_splits)
  with rq start_awaiting [OF assms(2)] have u0: "req_user rq = ''user-'' @ currentConversationId p"
    by auto
  from key k have "truthy (apiKey (onChange v ?r))" by (simp add: onChange_def)
  with start_awaiting [OF assms(4)] obtain rq' where rq': "awaiting p' = Fetch rq'"
    and u2: "req_user rq' = ''user-'' @ currentConversationId p'"
    by auto
  have "req_user rq' = req_user rq \<longleftrightarrow> now_conv c2 = now_conv c0"
    by (simp add: u0 u2 ids)
  with m cv av ids rq rq' show ?thesis by blast
qed

theorem failed_first_turn_witness:
  "no_conversation (activeConversationId demo_keyed) \<and>
   handleSendMessage_start demo_clock0 demo_keyed = Some (demo_sent, demo_pending) \<and>
   try_body demo_pending demo_failure = Inl ''Failed to fetch'' \<and>
   (\<exists>s3 p'.
      handleSendMessage_start demo_clock2
        (onChange ''hello'' (handleSendMessage demo_clock0 demo_failure demo_clock1 demo_keyed))
        = Some (s3, p') \<and>
      conversations (handleSendMessage demo_clock0 demo_failure demo_clock1 demo_keyed)
        = conversations demo_keyed \<and>
      activeConversationId (handleSendMessage demo_clock0 demo_failure demo_clock1 demo_keyed)
        = activeConversationId demo_keyed \<and>
      currentConversationId p' \<noteq> currentConversationId demo_pending)"
proof -
  let ?r = "onChange ''hello'' (handleSendMessage demo_clock0 demo_failure demo_clock1 demo_keyed)"
  have "truthy (trim (inputText ?r))" and "\<not> isSending ?r"
    by (simp_all add: onChange_def handleSendMessage_def demo_start finish_isSending
        truthy_def trim_def is_space_def)
  then obtain s3 p' where st: "handleSendMessage_start demo_clock2 ?r = Some (s3, p')"
    by (rule send_messages)
  have t: "now_conv demo_clock2 \<noteq> now_conv demo_clock0"
    by (simp add: demo_clock2_def demo_clock0_def)
  from failed_first_turn [OF demo_keyed_ready(4) demo_start demo_try_failure st] t
  show ?thesis
    using demo_keyed_ready(4) demo_start demo_try_failure st by blast
qed


text \<open>A retry within the same millisecond mints the id of the failed turn again, and
  addresses the same session.\<close>

theorem retry_in_same_millisecond_reuses_id:
  "no_conversation (activeConversationId demo_keyed) \<and>
   map_option (currentConversationId \<circ> snd) (handleSendMessage_start frozen_clock0 demo_keyed)
     = Some ''conv-1000'' \<and>
   map_option (awaiting \<circ> snd) (handleSendMessage_start frozen_clock0 demo_keyed)
     = Some (Fetch \<lparr>req_user = ''user-conv-1000'', req_authorization = ''VF.DM.demo'',
                      req_versionID = ''production'', req_payload = ''hello''\<rparr>) \<and>
   conversations (handleSendMessage frozen_clock0 demo_failure frozen_clock1 demo_keyed) = [] \<and>
   map_option (currentConversationId \<circ> snd)
     (handleSendMessage_start frozen_clock0
        (onChange ''hello'' (handleSendMessage frozen_clock0 demo_failure frozen_clock1 demo_keyed)))
     = Some ''conv-1000'' \<and>
   map_option (awaiting \<circ> snd)
     (handleSendMessage_start frozen_clock0
        (onChange ''hello'' (handleSendMessage frozen_clock0 demo_failure frozen_clock1 demo_keyed)))
     = Some (Fetch \<lparr>req_user = ''user-conv-1000'', req_authorization = ''VF.DM.demo'',
                      req_versionID = ''production'', req_payload = ''hello''\<rparr>)"
  by (simp add: demo_keyed_def demo_state_def initial_state_def frozen_clock0_def
      frozen_clock1_def demo_failure_def eval_defs)

section \<open>Message ids\<close>

text \<open>
  C8: the ids of a transcript are meant to be pairwise different. In this session the
  reply to the first message arrives at 1040 and gets the id 1041; the second message
  is sent at 1041 and gets the same id.
\<close>

theorem message_ids_collide:
  "map id_msg (messages
     (handleSendMessage demo_clock2 (Resolved demo_200) demo_clock3
        (onChange ''thanks''
           (handleSendMessage demo_clock0 (Resolved demo_200) demo_clock1 demo_keyed))))
     = [''1000'', ''1041'', ''1041'', ''1091''] \<and>
   \<not> distinct (map id_msg (messages
     (handleSendMessage demo_clock2 (Resolved demo_200) demo_clock3
        (onChange ''thanks''
           (handleSendMessage demo_clock0 (Resolved demo_200) demo_clock1 demo_keyed)))))"
  by (simp add: demo_keyed_def demo_state_def initial_state_def demo_clock0_def
      demo_clock1_def demo_clock2_def demo_clock3_def demo_200_def demo_traces_def eval_defs)

theorem message_ids_collide_witness:
  "map id_msg (messages
     (handleSendMessage demo_clock2 (Resolved demo_200) demo_clock3
        (onChange ''thanks''
           (handleSendMessage demo_clock0 (Resolved demo_200) demo_clock1 demo_keyed)))) ! 1
   = map id_msg (messages
     (handleSendMessage demo_clock2 (Resolved demo_200) demo_clock3
        (onChange ''thanks''
           (handleSendMessage demo_clock0 (Resolved demo_200) demo_clock1 demo_keyed)))) ! 2"
  by (simp add: conjunct1 [OF message_ids_collide])

end
